theory Spec2Isabelle
  imports Main "HOL-Library.Sublist"
begin

section \<open>vdirsyncer.utils: order-preserving deduplication\<close>

text \<open>
  \<^verbatim>\<open>
  def uniq(s):
      d = set()
      for x in s:
          if x not in d:
              d.add(x)
              yield x
  \<close>
  The generator is modelled on a finite input sequence of hashable elements; the list
  returned is the sequence of yielded values. The loop state is the set \<open>d\<close> of elements
  seen so far.
\<close>

fun uniq_loop :: "'a list \<Rightarrow> 'a set \<Rightarrow> 'a list" where
  "uniq_loop [] d = []"
| "uniq_loop (x # s) d = (if x \<notin> d then x # uniq_loop s (insert x d) else uniq_loop s d)"

definition uniq :: "'a list \<Rightarrow> 'a list" where
  "uniq s = uniq_loop s {}"

text \<open>
  The positions of first occurrences, written from the wording of the property: the
  element at index \<open>i\<close> is kept when it does not occur before index \<open>i\<close>.
\<close>

definition first_occurrences :: "'a list \<Rightarrow> 'a list" where
  "first_occurrences s = map (\<lambda>i. s ! i) (filter (\<lambda>i. s ! i \<notin> set (take i s)) [0..<length s])"

section \<open>Python numbers and the format specification \<open>.9f\<close>\<close>

text \<open>
  Exceptions that the modelled functions can propagate. \<open>OSError\<close> carries the
  \<open>errno\<close> of the failed system call.
\<close>

datatype pyexc = OSError nat | ValueError | OverflowError

text \<open>
  A finite Python \<open>float\<close> (an IEEE 754 double) is a sign bit, a significand \<open>m\<close> and
  an exponent \<open>e\<close>; its value is \<open>(-1)^s * m * 2^e\<close>. The modification time that
  \<open>os.stat\<close> reports is computed from the integer seconds and nanoseconds of the
  file's timestamp and is always finite.
\<close>

datatype pyfloat = Float (sign_bit: bool) (significand: nat) (exponent: int)

datatype pynum = PyInt int | PyFloat pyfloat

fun bit_length :: "nat \<Rightarrow> nat" where
  "bit_length n = (if n = 0 then 0 else Suc (bit_length (n div 2)))"

declare bit_length.simps [simp del]

text \<open>The integer nearest to \<open>num / den\<close>, a tie going to the even neighbour.\<close>

definition round_half_even :: "nat \<Rightarrow> nat \<Rightarrow> nat" where
  "round_half_even num den =
     (let q = num div den; r = num mod den
      in if den < 2 * r \<or> (2 * r = den \<and> odd q) then q + 1 else q)"

text \<open>
  \<open>float(n)\<close> for a Python \<open>int\<close>: the nearest double (53 significant bits, ties to
  even), and \<open>OverflowError\<close> when the rounded value does not fit the double range.
\<close>

definition long_as_double :: "int \<Rightarrow> pyexc + pyfloat" where
  "long_as_double n =
     (let a = nat \<bar>n\<bar>; k = bit_length a
      in if k \<le> 53 then Inr (Float (n < 0) a 0)
         else let sh = k - 53; q = round_half_even a (2 ^ sh)
              in if 2 ^ 1024 \<le> q * 2 ^ sh then Inl OverflowError
                 else Inr (Float (n < 0) q (int sh)))"

text \<open>
  The nearest integer to \<open>m * 2^e * 10^9\<close>: the magnitude of the float in units of
  \<open>10^-9\<close>, correctly rounded as the format code \<open>f\<close> with precision 9 rounds it.
\<close>

definition scaled_9 :: "nat \<Rightarrow> int \<Rightarrow> nat" where
  "scaled_9 m e =
     (if 0 \<le> e then m * 2 ^ nat e * 10 ^ 9
      else round_half_even (m * 10 ^ 9) (2 ^ nat (- e)))"

definition digit_char :: "nat \<Rightarrow> char" where
  "digit_char d = ''0123456789'' ! (d mod 10)"

fun digits :: "nat \<Rightarrow> string" where
  "digits n = (if n < 10 then [digit_char n] else digits (n div 10) @ [digit_char (n mod 10)])"

declare digits.simps [simp del]

fun fixed_digits :: "nat \<Rightarrow> nat \<Rightarrow> string" where
  "fixed_digits k n =
     (if k = 0 then [] else fixed_digits (k - 1) (n div 10) @ [digit_char (n mod 10)])"

declare fixed_digits.simps [simp del]

text \<open>\<open>'{:.9f}'.format(x)\<close> for a float \<open>x\<close>.\<close>

definition float_format_9f :: "pyfloat \<Rightarrow> string" where
  "float_format_9f x =
     (let n = scaled_9 (significand x) (exponent x)
      in (if sign_bit x then ''-'' else []) @ digits (n div 10 ^ 9) @ ''.''
         @ fixed_digits 9 (n mod 10 ^ 9))"

text \<open>
  \<open>'{:.9f}'.format(mtime)\<close>: an \<open>int\<close> formatted with a floating-point presentation
  type is converted with \<open>float()\<close> first.
\<close>

fun format_9f :: "pynum \<Rightarrow> pyexc + string" where
  "format_9f (PyFloat x) = Inr (float_format_9f x)"
| "format_9f (PyInt n) =
     (case long_as_double n of Inl e \<Rightarrow> Inl e | Inr x \<Rightarrow> Inr (float_format_9f x))"

section \<open>The operating system as seen by the module\<close>

type_synonym path = string

text \<open>
  The result of \<open>os.stat\<close>, restricted to the two attributes that the module reads.
  \<open>st_mtime_ns\<close> is \<open>None\<close> when the attribute does not exist on the stat result.
\<close>

record stat_result =
  st_mtime_ns :: "int option"
  st_mtime :: pyfloat

record fileobj =
  f_name :: path
  f_handle :: nat

datatype syscall = Stat path | Flush fileobj | Fileno fileobj | Fsync int

text \<open>
  The capabilities that the module consumes, over a world \<open>'w\<close> (the file system
  together with the buffers of the open files): the platform name, the metadata query
  (a read of the world), and the flush, descriptor and synchronisation primitives.
\<close>

record 'w os_iface =
  sys_platform :: string
  os_stat :: "path \<Rightarrow> 'w \<Rightarrow> pyexc + stat_result"
  file_flush :: "fileobj \<Rightarrow> 'w \<Rightarrow> (pyexc + unit) \<times> 'w"
  file_fileno :: "fileobj \<Rightarrow> 'w \<Rightarrow> pyexc + int"
  os_fsync :: "int \<Rightarrow> 'w \<Rightarrow> (pyexc + unit) \<times> 'w"

text \<open>The state threaded through the module: the world and the calls made so far.\<close>

record 'w state =
  world :: 'w
  trace :: "syscall list"

definition call_stat :: "'w os_iface \<Rightarrow> path \<Rightarrow> 'w state \<Rightarrow> (pyexc + stat_result) \<times> 'w state" where
  "call_stat os p s = (os_stat os p (world s), s\<lparr>trace := trace s @ [Stat p]\<rparr>)"

definition call_flush :: "'w os_iface \<Rightarrow> fileobj \<Rightarrow> 'w state \<Rightarrow> (pyexc + unit) \<times> 'w state" where
  "call_flush os f s =
     (case file_flush os f (world s) of
        (r, w) \<Rightarrow> (r, \<lparr>world = w, trace = trace s @ [Flush f]\<rparr>))"

definition call_fileno :: "'w os_iface \<Rightarrow> fileobj \<Rightarrow> 'w state \<Rightarrow> (pyexc + int) \<times> 'w state" where
  "call_fileno os f s = (file_fileno os f (world s), s\<lparr>trace := trace s @ [Fileno f]\<rparr>)"

definition call_fsync :: "'w os_iface \<Rightarrow> int \<Rightarrow> 'w state \<Rightarrow> (pyexc + unit) \<times> 'w state" where
  "call_fsync os fd s =
     (case os_fsync os fd (world s) of
        (r, w) \<Rightarrow> (r, \<lparr>world = w, trace = trace s @ [Fsync fd]\<rparr>))"

section \<open>vdirsyncer.utils: mtime-based etags\<close>

text \<open>
  \<^verbatim>\<open>
  def get_etag_from_file(fpath):
      stat = os.stat(fpath)
      mtime = getattr(stat, 'st_mtime_ns', None)
      if mtime is None:
          mtime = stat.st_mtime
      return '{:.9f}'.format(mtime)
  \<close>
\<close>

definition chosen_mtime :: "stat_result \<Rightarrow> pynum" where
  "chosen_mtime st = (case st_mtime_ns st of None \<Rightarrow> PyFloat (st_mtime st) | Some n \<Rightarrow> PyInt n)"

definition get_etag_from_file :: "'w os_iface \<Rightarrow> path \<Rightarrow> 'w state \<Rightarrow> (pyexc + string) \<times> 'w state" where
  "get_etag_from_file os fpath s =
     (case call_stat os fpath s of
        (Inl e, s1) \<Rightarrow> (Inl e, s1)
      | (Inr st, s1) \<Rightarrow> (format_9f (chosen_mtime st), s1))"

text \<open>
  \<^verbatim>\<open>
  def get_etag_from_fileobject(f):
      f.flush()  # Only this is necessary on Linux
      if sys.platform == 'win32':
          os.fsync(f.fileno())  # Apparently necessary on Windows
      return get_etag_from_file(f.name)
  \<close>
\<close>

definition sync_if_win32 :: "'w os_iface \<Rightarrow> fileobj \<Rightarrow> 'w state \<Rightarrow> (pyexc + unit) \<times> 'w state" where
  "sync_if_win32 os f s =
     (if sys_platform os = ''win32'' then
        (case call_fileno os f s of
           (Inl e, s1) \<Rightarrow> (Inl e, s1)
         | (Inr fd, s1) \<Rightarrow> call_fsync os fd s1)
      else (Inr (), s))"

definition get_etag_from_fileobject :: "'w os_iface \<Rightarrow> fileobj \<Rightarrow> 'w state \<Rightarrow> (pyexc + string) \<times> 'w state" where
  "get_etag_from_fileobject os f s =
     (case call_flush os f s of
        (Inl e, s1) \<Rightarrow> (Inl e, s1)
      | (Inr u, s1) \<Rightarrow>
          (case sync_if_win32 os f s1 of
             (Inl e, s2) \<Rightarrow> (Inl e, s2)
           | (Inr u', s2) \<Rightarrow> get_etag_from_file os (f_name f) s2))"

section \<open>Token shape and instants\<close>

text \<open>
  The pattern \<open><digits>.<exactly 9 digits>\<close>: a nonempty run of decimal digits, a
  decimal point, and exactly nine decimal digits.
\<close>

definition is_digit :: "char \<Rightarrow> bool" where
  "is_digit c = (c \<in> set ''0123456789'')"

definition is_token_shape :: "string \<Rightarrow> bool" where
  "is_token_shape t =
     (let ip = takeWhile (\<lambda>c. c \<noteq> CHR ''.'') t; rest = dropWhile (\<lambda>c. c \<noteq> CHR ''.'') t
      in ip \<noteq> [] \<and> list_all is_digit ip
         \<and> (case rest of [] \<Rightarrow> False | c # fp \<Rightarrow> length fp = 9 \<and> list_all is_digit fp))"

text \<open>
  The sign of a timestamp as the module receives it: a negative nanosecond count, or a
  float whose sign bit is set.
\<close>

fun is_negative :: "pynum \<Rightarrow> bool" where
  "is_negative (PyInt n) = (n < 0)"
| "is_negative (PyFloat x) = sign_bit x"

text \<open>
  An instant expressible both as an integer nanosecond count \<open>ns\<close> and as a float \<open>x\<close> of
  fractional seconds: the value of \<open>x\<close> is exactly \<open>ns / 10^9\<close>, with the sign of \<open>ns\<close>.
\<close>

definition same_instant :: "int \<Rightarrow> pyfloat \<Rightarrow> bool" where
  "same_instant ns x =
     (sign_bit x = (ns < 0)
      \<and> (if 0 \<le> exponent x
          then significand x * 2 ^ nat (exponent x) * 10 ^ 9 = nat \<bar>ns\<bar>
          else significand x * 10 ^ 9 = nat \<bar>ns\<bar> * 2 ^ nat (- exponent x)))"

section \<open>A table-backed operating system, for evaluation\<close>

text \<open>
  A world in which the metadata of every existing path is listed in a table; a path that
  is not listed does not exist (\<open>ENOENT\<close>, errno 2). Flushing and synchronising succeed
  and leave the table as it is.
\<close>

type_synonym table_world = "(path \<times> stat_result) list"

definition table_stat :: "path \<Rightarrow> table_world \<Rightarrow> pyexc + stat_result" where
  "table_stat p w = (case map_of w p of None \<Rightarrow> Inl (OSError 2) | Some st \<Rightarrow> Inr st)"

definition table_os :: "string \<Rightarrow> table_world os_iface" where
  "table_os plat =
     \<lparr>sys_platform = plat,
      os_stat = table_stat,
      file_flush = (\<lambda>f w. (Inr (), w)),
      file_fileno = (\<lambda>f w. Inr (int (f_handle f))),
      os_fsync = (\<lambda>fd w. (Inr (), w))\<rparr>"

definition start :: "'w \<Rightarrow> 'w state" where
  "start w = \<lparr>world = w, trace = []\<rparr>"

definition tmp_file :: fileobj where
  "tmp_file = \<lparr>f_name = ''tmp'', f_handle = 3\<rparr>"

definition world_ns :: table_world where
  "world_ns = [(''tmp'', \<lparr>st_mtime_ns = Some 2000000000, st_mtime = Float False 2 0\<rparr>)]"

definition world_seconds :: table_world where
  "world_seconds = [(''tmp'', \<lparr>st_mtime_ns = None, st_mtime = Float False 2 0\<rparr>)]"

definition world_epoch_ns :: table_world where
  "world_epoch_ns = [(''tmp'', \<lparr>st_mtime_ns = Some 0, st_mtime = Float False 0 0\<rparr>)]"

definition world_epoch_seconds :: table_world where
  "world_epoch_seconds = [(''tmp'', \<lparr>st_mtime_ns = None, st_mtime = Float False 0 0\<rparr>)]"

definition world_before_epoch :: table_world where
  "world_before_epoch = [(''tmp'', \<lparr>st_mtime_ns = Some (- 2), st_mtime = Float True 1 (- 29)\<rparr>)]"

section \<open>vdirsyncer.utils: cached_property\<close>

text \<open>
  \<^verbatim>\<open>
  _missing = object()

  class cached_property(object):
      def __init__(self, func, name=None, doc=None):
          self.__name__ = name or func.__name__
          self.__module__ = func.__module__
          self.__doc__ = doc or func.__doc__
          self.func = func

      def __get__(self, obj, type=None):
          if obj is None:
              return self
          value = obj.__dict__.get(self.__name__, _missing)
          if value is _missing:
              value = self.func(obj)
              obj.__dict__[self.__name__] = value
          return value
  \<close>
  An object is either the sentinel \<open>_missing\<close> or some other object. An instance is its
  \<open>__dict__\<close> together with a count of the invocations of the wrapped function on it.
  The wrapped function reads the instance, may change its \<open>__dict__\<close>, and returns an
  object or raises.
\<close>

datatype 'a pyobj = Missing | Obj 'a

record 'a py_instance =
  inst_dict :: "string \<rightharpoonup> 'a pyobj"
  calls :: nat

record 'a cached_property =
  cp_name :: string
  cp_func :: "(string \<rightharpoonup> 'a pyobj) \<Rightarrow> (pyexc + 'a pyobj) \<times> (string \<rightharpoonup> 'a pyobj)"

definition cached_property_init ::
  "((string \<rightharpoonup> 'a pyobj) \<Rightarrow> (pyexc + 'a pyobj) \<times> (string \<rightharpoonup> 'a pyobj)) \<Rightarrow> string
     \<Rightarrow> string option \<Rightarrow> 'a cached_property" where
  "cached_property_init func func_name name =
     \<lparr>cp_name = (case name of None \<Rightarrow> func_name | Some n \<Rightarrow> if n = [] then func_name else n),
      cp_func = func\<rparr>"

datatype 'a get_result = Descriptor | Value "'a pyobj"

definition call_func :: "'a cached_property \<Rightarrow> 'a py_instance \<Rightarrow> (pyexc + 'a pyobj) \<times> 'a py_instance" where
  "call_func self ob =
     (case cp_func self (inst_dict ob) of
        (r, d) \<Rightarrow> (r, \<lparr>inst_dict = d, calls = calls ob + 1\<rparr>))"

definition cached_property_get ::
  "'a cached_property \<Rightarrow> 'a py_instance option \<Rightarrow> (pyexc + 'a get_result) \<times> 'a py_instance option" where
  "cached_property_get self obj =
     (case obj of
        None \<Rightarrow> (Inr Descriptor, None)
      | Some ob \<Rightarrow>
          (case (case inst_dict ob (cp_name self) of None \<Rightarrow> Missing | Some v \<Rightarrow> v) of
             Missing \<Rightarrow>
               (case call_func self ob of
                  (Inl e, ob1) \<Rightarrow> (Inl e, Some ob1)
                | (Inr v, ob1) \<Rightarrow>
                    (Inr (Value v), Some (ob1\<lparr>inst_dict := (inst_dict ob1)(cp_name self \<mapsto> v)\<rparr>)))
           | Obj x \<Rightarrow> (Inr (Value (Obj x)), Some ob)))"

text \<open>
  \<open>n\<close> successive reads of the attribute on one instance, with nothing else touching the
  instance in between: the results in order, and the instance afterwards. Every read is
  taken to reach \<open>__get__\<close>.
\<close>

fun get_many ::
  "'a cached_property \<Rightarrow> nat \<Rightarrow> 'a py_instance \<Rightarrow> (pyexc + 'a get_result) list \<times> 'a py_instance" where
  "get_many self 0 ob = ([], ob)"
| "get_many self (Suc n) ob =
     (case cached_property_get self (Some ob) of
        (r, None) \<Rightarrow> ([r], ob)
      | (r, Some ob1) \<Rightarrow> (case get_many self n ob1 of (rs, ob2) \<Rightarrow> (r # rs, ob2)))"

text \<open>A wrapped function and an instance for evaluation: the function returns the object 42.\<close>

definition answer_func :: "(string \<rightharpoonup> nat pyobj) \<Rightarrow> (pyexc + nat pyobj) \<times> (string \<rightharpoonup> nat pyobj)" where
  "answer_func d = (Inr (Obj 42), d)"

definition fresh_instance :: "nat py_instance" where
  "fresh_instance = \<lparr>inst_dict = Map.empty, calls = 0\<rparr>"

text \<open>
  Two more wrapped functions for evaluation: one that always raises, and one that raises
  on its first invocation on an object (leaving a mark in the object's \<open>__dict__\<close>) and
  returns the object 42 afterwards.
\<close>

definition raising_func :: "(string \<rightharpoonup> nat pyobj) \<Rightarrow> (pyexc + nat pyobj) \<times> (string \<rightharpoonup> nat pyobj)" where
  "raising_func d = (Inl ValueError, d)"

definition flaky_func :: "(string \<rightharpoonup> nat pyobj) \<Rightarrow> (pyexc + nat pyobj) \<times> (string \<rightharpoonup> nat pyobj)" where
  "flaky_func d =
     (case d ''tried'' of
        None \<Rightarrow> (Inl ValueError, d(''tried'' \<mapsto> Obj 1))
      | Some v \<Rightarrow> (Inr (Obj 42), d))"

section \<open>The platform's durability contract and the caller's move\<close>



section \<open>An operating system with write buffers, for evaluation\<close>









section \<open>Properties of uniq\<close>

lemma uniq_loop_set: "set (uniq_loop s d) = set s - d"
  by (induction s arbitrary: d) auto

lemma uniq_loop_distinct: "distinct (uniq_loop s d)"
  by (induction s arbitrary: d) (auto simp: uniq_loop_set)

lemma uniq_loop_subseq: "subseq (uniq_loop s d) s"
  by (induction s arbitrary: d) auto

lemma first_occurrences_snoc:
  "first_occurrences (s @ [x]) = first_occurrences s @ (if x \<in> set s then [] else [x])"
proof -
  have "filter (\<lambda>i. (s @ [x]) ! i \<notin> set (take i (s @ [x]))) [0..<length s]
      = filter (\<lambda>i. s ! i \<notin> set (take i s)) [0..<length s]"
    by (rule filter_cong) (auto simp: nth_append)
  moreover have "map (\<lambda>i. (s @ [x]) ! i) (filter (\<lambda>i. s ! i \<notin> set (take i s)) [0..<length s])
      = map (\<lambda>i. s ! i) (filter (\<lambda>i. s ! i \<notin> set (take i s)) [0..<length s])"
    by (rule map_cong) (auto simp: nth_append)
  ultimately show ?thesis
    by (simp add: first_occurrences_def)
qed

lemma uniq_loop_snoc:
  "uniq_loop (s @ [x]) d = uniq_loop s d @ (if x \<in> set s \<union> d then [] else [x])"
  by (induction s arbitrary: d) auto

lemma uniq_first_occurrences: "uniq s = first_occurrences s"
proof (induction s rule: rev_induct)
  case Nil
  show ?case by (simp add: uniq_def first_occurrences_def)
next
  case (snoc x s)
  then show ?case
    by (simp add: uniq_def uniq_loop_snoc first_occurrences_snoc)
qed

text \<open>
  C9. For every input sequence, \<open>uniq\<close> yields exactly the distinct elements of the
  sequence, each exactly once, in the order of their first occurrence: the output has
  no duplicates, has the same elements as the input, is a subsequence of the input, and
  consists of the input's elements at the positions where an element occurs for the
  first time.
\<close>

theorem uniq_first_occurrence_order:
  "distinct (uniq s) \<and> set (uniq s) = set s \<and> subseq (uniq s) s
   \<and> uniq s = first_occurrences s"
  using uniq_loop_distinct [of s "{}"] uniq_loop_set [of s "{}"] uniq_loop_subseq [of s "{}"]
    uniq_first_occurrences [of s]
  by (simp add: uniq_def)

section \<open>Evaluation on concrete inputs\<close>

lemma float_format_9f_shape:
  "float_format_9f x = (if sign_bit x then ''-'' else []) @
     digits (scaled_9 (significand x) (exponent x) div 10 ^ 9) @ ''.'' @
     fixed_digits 9 (scaled_9 (significand x) (exponent x) mod 10 ^ 9)"
  by (simp add: float_format_9f_def Let_def)

lemma scaled_9_integer: "scaled_9 q (int sh) = q * 2 ^ sh * 10 ^ 9"
  by (simp add: scaled_9_def)

lemma integer_float_format:
  "float_format_9f (Float sg q (int sh)) =
     (if sg then ''-'' else []) @ digits (q * 2 ^ sh) @ ''.'' @ fixed_digits 9 0"
proof -
  have "scaled_9 q (int sh) div 10 ^ 9 = q * 2 ^ sh" "scaled_9 q (int sh) mod 10 ^ 9 = 0"
    by (simp_all only: scaled_9_integer) simp_all
  then show ?thesis
    by (simp only: float_format_9f_shape pyfloat.sel)
qed

lemma fixed_digits_9_0: "fixed_digits 9 0 = ''000000000''"
  by (simp add: fixed_digits.simps digit_char_def)

lemma digits_0: "digits 0 = ''0''"
  by (simp add: digits.simps digit_char_def)

lemma digits_2: "digits 2 = ''2''"
  by (simp add: digits.simps digit_char_def)

lemma digits_2e9: "digits 2000000000 = ''2000000000''"
  by (simp add: digits.simps digit_char_def)

lemma fmt_float_0: "float_format_9f (Float False 0 0) = ''0.000000000''"
  using integer_float_format [of False 0 0] by (simp add: digits_0 fixed_digits_9_0)

lemma fmt_float_2: "float_format_9f (Float False 2 0) = ''2.000000000''"
  using integer_float_format [of False 2 0] by (simp add: digits_2 fixed_digits_9_0)

lemma fmt_float_2e9: "float_format_9f (Float False 2000000000 0) = ''2000000000.000000000''"
  using integer_float_format [of False 2000000000 0] by (simp add: digits_2e9 fixed_digits_9_0)

lemma fmt_float_minus_2: "float_format_9f (Float True 2 0) = ''-2.000000000''"
  using integer_float_format [of True 2 0] by (simp add: digits_2 fixed_digits_9_0)

lemma long_as_double_0: "long_as_double 0 = Inr (Float False 0 0)"
  by (simp add: long_as_double_def bit_length.simps)

lemma long_as_double_2e9: "long_as_double 2000000000 = Inr (Float False 2000000000 0)"
  by (simp add: long_as_double_def bit_length.simps)

lemma long_as_double_minus_2: "long_as_double (- 2) = Inr (Float True 2 0)"
  by (simp add: long_as_double_def bit_length.simps)

lemma fmt_int_0: "format_9f (PyInt 0) = Inr ''0.000000000''"
  by (simp add: long_as_double_0 fmt_float_0)

lemma fmt_int_2e9: "format_9f (PyInt 2000000000) = Inr ''2000000000.000000000''"
  by (simp add: long_as_double_2e9 fmt_float_2e9)

lemma fmt_int_minus_2: "format_9f (PyInt (- 2)) = Inr ''-2.000000000''"
  by (simp add: long_as_double_minus_2 fmt_float_minus_2)

lemma fmt_seconds_0: "format_9f (PyFloat (Float False 0 0)) = Inr ''0.000000000''"
  by (simp add: fmt_float_0)

lemma fmt_seconds_2: "format_9f (PyFloat (Float False 2 0)) = Inr ''2.000000000''"
  by (simp add: fmt_float_2)

lemmas fmt_runs = fmt_int_0 fmt_int_2e9 fmt_int_minus_2 fmt_seconds_0 fmt_seconds_2

lemmas os_eval = table_os_def table_stat_def start_def tmp_file_def world_ns_def
  world_seconds_def world_epoch_ns_def world_epoch_seconds_def world_before_epoch_def
  get_etag_from_file_def get_etag_from_fileobject_def call_stat_def
  call_flush_def call_fileno_def call_fsync_def sync_if_win32_def chosen_mtime_def

lemma run_ns: "fst (get_etag_from_file (table_os ''linux'') ''tmp'' (start world_ns))
    = Inr ''2000000000.000000000''"
  by (simp add: os_eval fmt_runs del: format_9f.simps)

lemma run_seconds: "fst (get_etag_from_file (table_os ''linux'') ''tmp'' (start world_seconds))
    = Inr ''2.000000000''"
  by (simp add: os_eval fmt_runs del: format_9f.simps)

lemma run_epoch_ns: "fst (get_etag_from_file (table_os ''linux'') ''tmp'' (start world_epoch_ns))
    = Inr ''0.000000000''"
  by (simp add: os_eval fmt_runs del: format_9f.simps)

lemma run_epoch_seconds:
  "fst (get_etag_from_file (table_os ''linux'') ''tmp'' (start world_epoch_seconds))
    = Inr ''0.000000000''"
  by (simp add: os_eval fmt_runs del: format_9f.simps)

lemma run_before_epoch:
  "fst (get_etag_from_file (table_os ''linux'') ''tmp'' (start world_before_epoch))
    = Inr ''-2.000000000''"
  by (simp add: os_eval fmt_runs del: format_9f.simps)

lemma run_capture_linux:
  "get_etag_from_fileobject (table_os ''linux'') tmp_file (start world_ns)
    = (Inr ''2000000000.000000000'',
       \<lparr>world = world_ns, trace = [Flush tmp_file, Stat ''tmp'']\<rparr>)"
  by (simp add: os_eval fmt_runs del: format_9f.simps)

lemma run_capture_win32:
  "get_etag_from_fileobject (table_os ''win32'') tmp_file (start world_ns)
    = (Inr ''2000000000.000000000'',
       \<lparr>world = world_ns, trace = [Flush tmp_file, Fileno tmp_file, Fsync 3, Stat ''tmp'']\<rparr>)"
  by (simp add: os_eval fmt_runs del: format_9f.simps)

lemma stat_tmp_ns:
  "os_stat (table_os plat) ''tmp'' world_ns
    = Inr \<lparr>st_mtime_ns = Some 2000000000, st_mtime = Float False 2 0\<rparr>"
  by (simp add: table_os_def table_stat_def world_ns_def)

section \<open>Digit strings\<close>

lemma digit_char_is_digit: "is_digit (digit_char d)"
proof -
  have "d mod 10 < length ''0123456789''" by simp
  then have "''0123456789'' ! (d mod 10) \<in> set ''0123456789''"
    by (rule nth_mem)
  then show ?thesis
    unfolding is_digit_def digit_char_def .
qed

lemma is_digit_not_point: "is_digit c \<Longrightarrow> c \<noteq> CHR ''.''"
  by (auto simp: is_digit_def)

lemma digit_char_inj:
  assumes "digit_char a = digit_char b"
  shows "a mod 10 = b mod 10"
proof -
  have d: "distinct ''0123456789''" by simp
  have "a mod 10 < length ''0123456789''" "b mod 10 < length ''0123456789''" by simp_all
  with d assms show ?thesis
    unfolding digit_char_def by (simp only: nth_eq_iff_index_eq)
qed

lemma digits_nonempty: "digits n \<noteq> []"
  by (subst digits.simps) simp

lemma digits_all_digit: "list_all is_digit (digits n)"
proof (induction n rule: digits.induct)
  case (1 n)
  show ?case
  proof (cases "n < 10")
    case True
    then show ?thesis
      by (subst digits.simps) (simp add: digit_char_is_digit)
  next
    case False
    with 1 show ?thesis
      by (subst digits.simps) (simp add: digit_char_is_digit)
  qed
qed

lemma fixed_digits_length: "length (fixed_digits k n) = k"
proof (induction k n rule: fixed_digits.induct)
  case (1 k n)
  then show ?case
    by (subst fixed_digits.simps) simp
qed

lemma fixed_digits_all_digit: "list_all is_digit (fixed_digits k n)"
proof (induction k n rule: fixed_digits.induct)
  case (1 k n)
  then show ?case
    by (subst fixed_digits.simps) (simp add: digit_char_is_digit)
qed

lemma digits_small: "n < 10 \<Longrightarrow> digits n = [digit_char n]"
  by (subst digits.simps) simp

lemma digits_large: "\<not> n < 10 \<Longrightarrow> digits n = digits (n div 10) @ [digit_char (n mod 10)]"
  by (subst digits.simps) simp

lemma digits_inj: "digits a = digits b \<Longrightarrow> a = b"
proof (induction a arbitrary: b rule: digits.induct)
  case (1 a)
  note eq = \<open>digits a = digits b\<close>
  show ?case
  proof (cases "a < 10")
    case a: True
    show ?thesis
    proof (cases "b < 10")
      case True
      have "[digit_char a] = [digit_char b]"
        using eq unfolding digits_small [OF a] digits_small [OF True] .
      then have "digit_char a = digit_char b" by (simp only: list.inject)
      then have "a mod 10 = b mod 10" by (rule digit_char_inj)
      then show ?thesis
        by (simp only: mod_less [OF a] mod_less [OF True])
    next
      case False
      have "[digit_char a] = digits (b div 10) @ [digit_char (b mod 10)]"
        using eq unfolding digits_small [OF a] digits_large [OF False] .
      then have "digits (b div 10) = []"
        by (metis append_Nil append1_eq_conv)
      then show ?thesis by (simp only: digits_nonempty)
    qed
  next
    case a: False
    show ?thesis
    proof (cases "b < 10")
      case True
      have "digits (a div 10) @ [digit_char (a mod 10)] = [digit_char b]"
        using eq unfolding digits_large [OF a] digits_small [OF True] .
      then have "digits (a div 10) = []"
        by (metis append_Nil append1_eq_conv)
      then show ?thesis by (simp only: digits_nonempty)
    next
      case False
      have "digits (a div 10) @ [digit_char (a mod 10)] = digits (b div 10) @ [digit_char (b mod 10)]"
        using eq unfolding digits_large [OF a] digits_large [OF False] .
      then have e: "digits (a div 10) = digits (b div 10)"
        and c: "digit_char (a mod 10) = digit_char (b mod 10)"
        by (simp_all only: append1_eq_conv)
      from a e have d: "a div 10 = b div 10" by (rule "1.IH")
      have "a mod 10 mod 10 = b mod 10 mod 10"
        using c by (rule digit_char_inj)
      then have m: "a mod 10 = b mod 10"
        by (simp only: mod_mod_trivial)
      have "a = a div 10 * 10 + a mod 10"
        by (simp only: div_mult_mod_eq)
      also have "\<dots> = b div 10 * 10 + b mod 10"
        by (simp only: d m)
      also have "\<dots> = b"
        by (simp only: div_mult_mod_eq)
      finally show ?thesis .
    qed
  qed
qed

lemma token_body_shape: "is_token_shape (digits a @ ''.'' @ fixed_digits 9 b)"
proof -
  have np: "\<forall>c \<in> set (digits a). c \<noteq> CHR ''.''"
    using digits_all_digit [of a] is_digit_not_point by (auto simp: list_all_iff)
  have t: "takeWhile (\<lambda>c. c \<noteq> CHR ''.'') (digits a @ ''.'' @ fixed_digits 9 b) = digits a"
    using np by (simp add: takeWhile_append2)
  have d: "dropWhile (\<lambda>c. c \<noteq> CHR ''.'') (digits a @ ''.'' @ fixed_digits 9 b)
      = ''.'' @ fixed_digits 9 b"
    using np by (simp add: dropWhile_append2)
  show ?thesis
    unfolding is_token_shape_def t d Let_def
    by (simp add: digits_nonempty digits_all_digit fixed_digits_length fixed_digits_all_digit)
qed

lemma token_body_cancel:
  assumes "digits a @ ''.'' @ f1 = digits b @ ''.'' @ f2"
  shows "a = b \<and> f1 = f2"
proof -
  have npa: "\<forall>c \<in> set (digits a). c \<noteq> CHR ''.''"
    using digits_all_digit [of a] is_digit_not_point by (auto simp: list_all_iff)
  have npb: "\<forall>c \<in> set (digits b). c \<noteq> CHR ''.''"
    using digits_all_digit [of b] is_digit_not_point by (auto simp: list_all_iff)
  have "takeWhile (\<lambda>c. c \<noteq> CHR ''.'') (digits a @ ''.'' @ f1) = digits a"
    using npa by (simp add: takeWhile_append2)
  moreover have "takeWhile (\<lambda>c. c \<noteq> CHR ''.'') (digits b @ ''.'' @ f2) = digits b"
    using npb by (simp add: takeWhile_append2)
  moreover have "takeWhile (\<lambda>c. c \<noteq> CHR ''.'') (digits a @ ''.'' @ f1)
      = takeWhile (\<lambda>c. c \<noteq> CHR ''.'') (digits b @ ''.'' @ f2)"
    by (rule arg_cong [OF assms])
  ultimately have e: "digits a = digits b"
    by (simp only:)
  then have ab: "a = b" by (rule digits_inj)
  have "digits b @ ''.'' @ f1 = digits b @ ''.'' @ f2"
    using assms unfolding ab .
  then have "f1 = f2"
    by (simp only: same_append_eq)
  with ab show ?thesis by (simp only: simp_thms)
qed

section \<open>Shape of a formatted number\<close>

lemma float_format_9f_signed_shape:
  "if sign_bit x
   then float_format_9f x \<noteq> [] \<and> hd (float_format_9f x) = CHR ''-''
        \<and> is_token_shape (tl (float_format_9f x))
   else is_token_shape (float_format_9f x)"
  using token_body_shape by (simp add: float_format_9f_shape)

lemma long_as_double_sign: "long_as_double n = Inr x \<Longrightarrow> sign_bit x = (n < 0)"
  by (auto simp: long_as_double_def Let_def split: if_splits)

lemma format_9f_signed_shape:
  assumes "format_9f v = Inr t"
  shows "if is_negative v
         then t \<noteq> [] \<and> hd t = CHR ''-'' \<and> is_token_shape (tl t)
         else is_token_shape t"
proof (cases v)
  case (PyInt n)
  with assms obtain x where x: "long_as_double n = Inr x" and t: "t = float_format_9f x"
    by (auto split: sum.splits)
  from x have "sign_bit x = is_negative v"
    using PyInt by (simp add: long_as_double_sign)
  with float_format_9f_signed_shape [of x] t show ?thesis
    by (simp only:)
next
  case (PyFloat x)
  with assms have t: "t = float_format_9f x" by auto
  have "sign_bit x = is_negative v"
    using PyFloat by simp
  with float_format_9f_signed_shape [of x] t show ?thesis
    by (simp only:)
qed

section \<open>Rounding and the two timestamp representations\<close>

lemma bit_length_bound: "n \<noteq> 0 \<Longrightarrow> 2 ^ bit_length n \<le> 2 * n"
proof (induction n rule: bit_length.induct)
  case (1 n)
  from \<open>n \<noteq> 0\<close> have bl: "bit_length n = Suc (bit_length (n div 2))"
    by (subst bit_length.simps) simp
  show ?case
  proof (cases "n div 2 = 0")
    case True
    then have "bit_length (n div 2) = 0"
      by (subst bit_length.simps) simp
    with bl \<open>n \<noteq> 0\<close> show ?thesis by simp
  next
    case False
    with 1 have "2 ^ bit_length (n div 2) \<le> 2 * (n div 2)" by simp
    also have "\<dots> \<le> n" by simp
    finally show ?thesis by (simp add: bl)
  qed
qed

lemma round_half_even_ge: "num div den \<le> round_half_even num den"
  by (simp add: round_half_even_def Let_def)

lemma round_half_even_exact: "0 < den \<Longrightarrow> round_half_even (a * den) den = a"
  by (simp add: round_half_even_def Let_def)

lemma scaled_9_same_instant:
  assumes "same_instant ns x"
  shows "scaled_9 (significand x) (exponent x) = nat \<bar>ns\<bar>"
proof (cases "0 \<le> exponent x")
  case True
  with assms show ?thesis by (simp add: same_instant_def scaled_9_def)
next
  case False
  with assms have "significand x * 10 ^ 9 = nat \<bar>ns\<bar> * 2 ^ nat (- exponent x)"
    by (simp add: same_instant_def)
  then have "round_half_even (significand x * 10 ^ 9) (2 ^ nat (- exponent x)) = nat \<bar>ns\<bar>"
    by (simp only: round_half_even_exact zero_less_power zero_less_numeral)
  with False show ?thesis by (simp add: scaled_9_def)
qed

lemma long_as_double_magnitude:
  assumes "long_as_double n = Inr x"
  shows "\<exists>k. float_format_9f x = (if n < 0 then ''-'' else []) @ digits k @ ''.'' @ fixed_digits 9 0
           \<and> (n \<noteq> 0 \<longrightarrow> nat \<bar>n\<bar> < 2 * k)"
proof (cases "bit_length (nat \<bar>n\<bar>) \<le> 53")
  case True
  with assms have x: "x = Float (n < 0) (nat \<bar>n\<bar>) (int 0)"
    by (simp add: long_as_double_def Let_def)
  have "float_format_9f x = (if n < 0 then ''-'' else []) @ digits (nat \<bar>n\<bar>) @ ''.'' @ fixed_digits 9 0"
    unfolding x integer_float_format by simp
  moreover have "n \<noteq> 0 \<longrightarrow> nat \<bar>n\<bar> < 2 * nat \<bar>n\<bar>" by simp
  ultimately show ?thesis by blast
next
  case False
  define a where "a = nat \<bar>n\<bar>"
  define sh where "sh = bit_length a - 53"
  define q where "q = round_half_even a (2 ^ sh)"
  from False assms have x: "x = Float (n < 0) q (int sh)"
    by (simp add: long_as_double_def Let_def a_def sh_def q_def split: if_splits)
  have fmt: "float_format_9f x = (if n < 0 then ''-'' else []) @ digits (q * 2 ^ sh) @ ''.'' @ fixed_digits 9 0"
    unfolding x integer_float_format ..
  have a0: "a \<noteq> 0"
  proof
    assume "a = 0"
    then have "bit_length a = 0" by (subst bit_length.simps) simp
    with False show False by (simp add: a_def)
  qed
  from False have k: "bit_length a = sh + 53"
    by (simp add: sh_def a_def)
  have "(4::nat) * 2 ^ sh \<le> 2 ^ 53 * 2 ^ sh" by simp
  also have "\<dots> = 2 ^ bit_length a" by (simp add: k power_add)
  also have "\<dots> \<le> 2 * a" using a0 by (rule bit_length_bound)
  finally have small: "2 * (2::nat) ^ sh \<le> a" by simp
  have "a div 2 ^ sh * 2 ^ sh \<le> q * 2 ^ sh"
    unfolding q_def by (rule mult_right_mono [OF round_half_even_ge]) simp
  moreover have "a = a div 2 ^ sh * 2 ^ sh + a mod 2 ^ sh"
    by (simp only: div_mult_mod_eq)
  moreover have "a mod 2 ^ sh < 2 ^ sh" by simp
  ultimately have "a < q * 2 ^ sh + 2 ^ sh" by linarith
  with small have "a < 2 * (q * 2 ^ sh)" by linarith
  with fmt show ?thesis
    unfolding a_def by blast
qed

lemma format_9f_same_instant:
  assumes "same_instant ns x"
  shows "(format_9f (PyInt ns) = format_9f (PyFloat x)) = (ns = 0)"
proof
  assume ns: "ns = 0"
  have z: "long_as_double 0 = Inr (Float False 0 (int 0))"
    by (simp add: long_as_double_def Let_def bit_length.simps)
  from assms ns have sx: "\<not> sign_bit x" and sc: "scaled_9 (significand x) (exponent x) = 0"
    using scaled_9_same_instant [OF assms] by (simp_all add: same_instant_def)
  have "float_format_9f x = digits 0 @ ''.'' @ fixed_digits 9 0"
    using sx sc by (simp add: float_format_9f_shape)
  moreover have "float_format_9f (Float False 0 (int 0)) = digits 0 @ ''.'' @ fixed_digits 9 0"
    unfolding integer_float_format by simp
  ultimately show "format_9f (PyInt ns) = format_9f (PyFloat x)"
    by (simp add: ns z)
next
  assume eq: "format_9f (PyInt ns) = format_9f (PyFloat x)"
  show "ns = 0"
  proof (rule ccontr)
    assume nz: "ns \<noteq> 0"
    from eq obtain y where y: "long_as_double ns = Inr y"
      and fy: "float_format_9f y = float_format_9f x"
      by (auto split: sum.splits)
    from long_as_double_magnitude [OF y] nz obtain k
      where ky: "float_format_9f y = (if ns < 0 then ''-'' else []) @ digits k @ ''.'' @ fixed_digits 9 0"
        and kb: "nat \<bar>ns\<bar> < 2 * k"
      by blast
    define a where "a = nat \<bar>ns\<bar>"
    have "float_format_9f x = (if ns < 0 then ''-'' else []) @ digits (a div 10 ^ 9) @ ''.''
        @ fixed_digits 9 (a mod 10 ^ 9)"
      using assms scaled_9_same_instant [OF assms]
      by (simp add: float_format_9f_shape same_instant_def a_def)
    with ky fy have "digits k @ ''.'' @ fixed_digits 9 0
        = digits (a div 10 ^ 9) @ ''.'' @ fixed_digits 9 (a mod 10 ^ 9)"
      by (simp only: same_append_eq)
    then have "k = a div 10 ^ 9"
      using token_body_cancel by blast
    then have "2 * k \<le> a" by simp
    with kb show False by (simp add: a_def)
  qed
qed

section \<open>Running the etag functions\<close>

lemma get_etag_from_file_unfold:
  "get_etag_from_file os fpath s =
     ((case os_stat os fpath (world s) of Inl e \<Rightarrow> Inl e | Inr st \<Rightarrow> format_9f (chosen_mtime st)),
      s\<lparr>trace := trace s @ [Stat fpath]\<rparr>)"
  by (simp add: get_etag_from_file_def call_stat_def split: sum.splits)

lemma sync_if_win32_other:
  "sys_platform os \<noteq> ''win32'' \<Longrightarrow> sync_if_win32 os f s = (Inr (), s)"
  by (simp add: sync_if_win32_def)

lemma sync_if_win32_win32:
  "sys_platform os = ''win32'' \<Longrightarrow> file_fileno os f (world s) = Inr fd \<Longrightarrow>
   os_fsync os fd (world s) = (r, w) \<Longrightarrow>
   sync_if_win32 os f s = (r, \<lparr>world = w, trace = trace s @ [Fileno f, Fsync fd]\<rparr>)"
  by (simp add: sync_if_win32_def call_fileno_def call_fsync_def)










section \<open>Reading a cached property\<close>

lemma cached_property_get_cached:
  assumes "inst_dict ob (cp_name self) = Some v" and "v \<noteq> Missing"
  shows "cached_property_get self (Some ob) = (Inr (Value v), Some ob)"
  using assms by (cases v) (simp_all add: cached_property_get_def)

lemma cached_property_get_stores:
  assumes "cached_property_get self (Some ob) = (Inr (Value v), Some ob1)"
  shows "inst_dict ob1 (cp_name self) = Some v \<and> calls ob1 \<le> calls ob + 1"
  using assms
  by (auto simp: cached_property_get_def call_func_def
      split: option.splits pyobj.splits sum.splits prod.splits)

lemma get_many_cached:
  assumes "inst_dict ob (cp_name self) = Some v" and "v \<noteq> Missing"
  shows "get_many self n ob = (replicate n (Inr (Value v)), ob)"
  by (induction n) (simp_all add: cached_property_get_cached [OF assms])

section \<open>Claims about get_etag_from_file\<close>

text \<open>
  C8. \<open>get_etag_from_file\<close> has no side effects: for every path and every state, the
  world after the call is the world before it, and the only call made is one metadata
  query of that path.
\<close>

theorem get_etag_from_file_pure_read:
  "world (snd (get_etag_from_file os fpath s)) = world s
   \<and> trace (snd (get_etag_from_file os fpath s)) = trace s @ [Stat fpath]"
  by (simp add: get_etag_from_file_unfold)

text \<open>
  C5. When the metadata of the path cannot be read, \<open>get_etag_from_file\<close> fails with
  the very exception that \<open>os.stat\<close> raised: it returns no token, and it made a single
  metadata query (no retry).
\<close>

theorem get_etag_from_file_propagates_error:
  assumes "os_stat os fpath (world s) = Inl e"
  shows "fst (get_etag_from_file os fpath s) = Inl e
     \<and> trace (snd (get_etag_from_file os fpath s)) = trace s @ [Stat fpath]"
  using assms by (simp add: get_etag_from_file_unfold)

theorem get_etag_from_file_propagates_error_witness:
  "os_stat (table_os ''linux'') ''missing'' (world (start [])) = Inl (OSError 2)
   \<and> fst (get_etag_from_file (table_os ''linux'') ''missing'' (start [])) = Inl (OSError 2)
   \<and> trace (snd (get_etag_from_file (table_os ''linux'') ''missing'' (start [])))
       = [Stat ''missing'']"
proof -
  have h: "os_stat (table_os ''linux'') ''missing'' (world (start [])) = Inl (OSError 2)"
    by (simp add: table_os_def table_stat_def start_def)
  show ?thesis
    using h get_etag_from_file_propagates_error [OF h] by (simp add: start_def)
qed

text \<open>
  C4. \<open>get_etag_from_file\<close> uses exactly one timestamp representation: when the stat
  result has \<open>st_mtime_ns\<close>, the token is the formatted nanosecond count and does not
  depend on \<open>st_mtime\<close>; \<open>st_mtime\<close> is formatted only when \<open>st_mtime_ns\<close> is absent.
\<close>

theorem get_etag_from_file_one_representation:
  assumes "os_stat os fpath (world s) = Inr st"
  shows "fst (get_etag_from_file os fpath s) =
     (case st_mtime_ns st of
        Some ns \<Rightarrow> format_9f (PyInt ns)
      | None \<Rightarrow> format_9f (PyFloat (st_mtime st)))"
  using assms by (simp add: get_etag_from_file_unfold chosen_mtime_def split: option.splits)

theorem get_etag_from_file_one_representation_witness:
  "os_stat (table_os ''linux'') ''tmp'' (world (start world_ns))
     = Inr \<lparr>st_mtime_ns = Some 2000000000, st_mtime = Float False 2 0\<rparr>
   \<and> fst (get_etag_from_file (table_os ''linux'') ''tmp'' (start world_ns))
     = Inr ''2000000000.000000000''"
proof -
  have h: "os_stat (table_os ''linux'') ''tmp'' (world (start world_ns))
      = Inr \<lparr>st_mtime_ns = Some 2000000000, st_mtime = Float False 2 0\<rparr>"
    by (simp add: start_def stat_tmp_ns)
  show ?thesis
    using h get_etag_from_file_one_representation [OF h]
    by (simp add: fmt_int_2e9 del: format_9f.simps)
qed

text \<open>
  C6. Two calls of \<open>get_etag_from_file\<close> on a file whose modification-time metadata is
  the same at both calls return the same result: the token is a function of the stat
  metadata alone.
\<close>

theorem get_etag_from_file_deterministic:
  assumes "os_stat os fpath (world s1) = Inr st1"
      and "os_stat os fpath (world s2) = Inr st2"
      and "st_mtime_ns st1 = st_mtime_ns st2"
      and "st_mtime st1 = st_mtime st2"
  shows "fst (get_etag_from_file os fpath s1) = fst (get_etag_from_file os fpath s2)"
  using assms by (simp add: get_etag_from_file_unfold chosen_mtime_def split: option.splits)

theorem get_etag_from_file_deterministic_witness:
  "os_stat (table_os ''linux'') ''tmp'' (world (start world_ns))
     = Inr \<lparr>st_mtime_ns = Some 2000000000, st_mtime = Float False 2 0\<rparr>
   \<and> os_stat (table_os ''linux'') ''tmp''
         (world (snd (get_etag_from_file (table_os ''linux'') ''tmp'' (start world_ns))))
     = Inr \<lparr>st_mtime_ns = Some 2000000000, st_mtime = Float False 2 0\<rparr>
   \<and> fst (get_etag_from_file (table_os ''linux'') ''tmp'' (start world_ns))
     = fst (get_etag_from_file (table_os ''linux'') ''tmp''
         (snd (get_etag_from_file (table_os ''linux'') ''tmp'' (start world_ns))))"
proof -
  let ?s2 = "snd (get_etag_from_file (table_os ''linux'') ''tmp'' (start world_ns))"
  have h1: "os_stat (table_os ''linux'') ''tmp'' (world (start world_ns))
      = Inr \<lparr>st_mtime_ns = Some 2000000000, st_mtime = Float False 2 0\<rparr>"
    by (simp add: start_def stat_tmp_ns)
  have h2: "os_stat (table_os ''linux'') ''tmp'' (world ?s2)
      = Inr \<lparr>st_mtime_ns = Some 2000000000, st_mtime = Float False 2 0\<rparr>"
    by (simp add: get_etag_from_file_unfold start_def stat_tmp_ns)
  show ?thesis
    using h1 h2 get_etag_from_file_deterministic [OF h1 h2] by simp
qed

section \<open>Claims about get_etag_from_fileobject\<close>

text \<open>
  C2. \<open>get_etag_from_fileobject\<close> performs exactly these steps in order: it flushes the
  file object; if and only if the platform is \<open>win32\<close> it obtains the file descriptor and
  synchronises it with \<open>os.fsync\<close>; then it returns the result of \<open>get_etag_from_file\<close>
  on the name of the file object, in the state that the earlier steps left.
\<close>

theorem get_etag_from_fileobject_steps:
  assumes "file_flush os f (world s) = (Inr (), w1)"
  shows "(sys_platform os \<noteq> ''win32'' \<longrightarrow>
            get_etag_from_fileobject os f s =
              get_etag_from_file os (f_name f) \<lparr>world = w1, trace = trace s @ [Flush f]\<rparr>
            \<and> trace (snd (get_etag_from_fileobject os f s)) =
                trace s @ [Flush f, Stat (f_name f)])
       \<and> (sys_platform os = ''win32'' \<longrightarrow> file_fileno os f w1 = Inr fd \<longrightarrow>
            os_fsync os fd w1 = (Inr (), w2) \<longrightarrow>
            get_etag_from_fileobject os f s =
              get_etag_from_file os (f_name f)
                \<lparr>world = w2, trace = trace s @ [Flush f, Fileno f, Fsync fd]\<rparr>
            \<and> trace (snd (get_etag_from_fileobject os f s)) =
                trace s @ [Flush f, Fileno f, Fsync fd, Stat (f_name f)])"
proof (intro conjI impI)
  let ?s1 = "\<lparr>world = w1, trace = trace s @ [Flush f]\<rparr>"
  have fl: "call_flush os f s = (Inr (), ?s1)"
    using assms by (simp add: call_flush_def)
  {
    assume p: "sys_platform os \<noteq> ''win32''"
    show a: "get_etag_from_fileobject os f s = get_etag_from_file os (f_name f) ?s1"
      by (simp add: get_etag_from_fileobject_def fl sync_if_win32_other [OF p])
    show "trace (snd (get_etag_from_fileobject os f s)) = trace s @ [Flush f, Stat (f_name f)]"
      by (simp add: a get_etag_from_file_unfold)
  }
  {
    assume p: "sys_platform os = ''win32''" and fn: "file_fileno os f w1 = Inr fd"
      and fs: "os_fsync os fd w1 = (Inr (), w2)"
    have sy: "sync_if_win32 os f ?s1
        = (Inr (), \<lparr>world = w2, trace = trace s @ [Flush f, Fileno f, Fsync fd]\<rparr>)"
      using sync_if_win32_win32 [of os f ?s1 fd "Inr ()" w2] p fn fs by simp
    show b: "get_etag_from_fileobject os f s =
        get_etag_from_file os (f_name f)
          \<lparr>world = w2, trace = trace s @ [Flush f, Fileno f, Fsync fd]\<rparr>"
      by (simp add: get_etag_from_fileobject_def fl sy)
    show "trace (snd (get_etag_from_fileobject os f s))
        = trace s @ [Flush f, Fileno f, Fsync fd, Stat (f_name f)]"
      by (simp add: b get_etag_from_file_unfold)
  }
qed

theorem get_etag_from_fileobject_steps_witness:
  "file_flush (table_os ''linux'') tmp_file (world (start world_ns)) = (Inr (), world_ns)
   \<and> sys_platform (table_os ''linux'') \<noteq> ''win32''
   \<and> trace (snd (get_etag_from_fileobject (table_os ''linux'') tmp_file (start world_ns)))
       = [Flush tmp_file, Stat (f_name tmp_file)]
   \<and> file_flush (table_os ''win32'') tmp_file (world (start world_ns)) = (Inr (), world_ns)
   \<and> sys_platform (table_os ''win32'') = ''win32''
   \<and> file_fileno (table_os ''win32'') tmp_file world_ns = Inr 3
   \<and> os_fsync (table_os ''win32'') 3 world_ns = (Inr (), world_ns)
   \<and> trace (snd (get_etag_from_fileobject (table_os ''win32'') tmp_file (start world_ns)))
       = [Flush tmp_file, Fileno tmp_file, Fsync 3, Stat (f_name tmp_file)]"
proof -
  have l1: "file_flush (table_os ''linux'') tmp_file (world (start world_ns)) = (Inr (), world_ns)"
    by (simp add: table_os_def start_def)
  have l2: "sys_platform (table_os ''linux'') \<noteq> ''win32''"
    by (simp add: table_os_def)
  have w1: "file_flush (table_os ''win32'') tmp_file (world (start world_ns)) = (Inr (), world_ns)"
    by (simp add: table_os_def start_def)
  have w2: "sys_platform (table_os ''win32'') = ''win32''"
    by (simp add: table_os_def)
  have w3: "file_fileno (table_os ''win32'') tmp_file world_ns = Inr 3"
    by (simp add: table_os_def tmp_file_def)
  have w4: "os_fsync (table_os ''win32'') 3 world_ns = (Inr (), world_ns)"
    by (simp add: table_os_def)
  have t0: "trace (start world_ns) = []"
    by (simp add: start_def)
  from get_etag_from_fileobject_steps [OF l1, of 3 world_ns, unfolded t0 append_Nil] l2
  have a: "trace (snd (get_etag_from_fileobject (table_os ''linux'') tmp_file (start world_ns)))
      = [Flush tmp_file, Stat (f_name tmp_file)]"
    by blast
  from get_etag_from_fileobject_steps [OF w1, of 3 world_ns, unfolded t0 append_Nil] w2 w3 w4
  have b: "trace (snd (get_etag_from_fileobject (table_os ''win32'') tmp_file (start world_ns)))
      = [Flush tmp_file, Fileno tmp_file, Fsync 3, Stat (f_name tmp_file)]"
    by blast
  from l1 l2 a w1 w2 w3 w4 b show ?thesis
    by (simp only: simp_thms)
qed



section \<open>Claims about the token format\<close>

text \<open>
  C3 (as stated). For every input timestamp the token matches the pattern
  \<open><digits>.<exactly 9 digits>\<close>. This fails for a modification time before the epoch: a
  file whose \<open>st_mtime_ns\<close> is \<open>-2\<close> gets the token \<open>-2.000000000\<close>, which starts with a
  minus sign.
\<close>

theorem token_shape_counterexample:
  "fst (get_etag_from_file (table_os ''linux'') ''tmp'' (start world_before_epoch))
     = Inr ''-2.000000000''
   \<and> \<not> is_token_shape ''-2.000000000''"
  using run_before_epoch by (simp add: is_token_shape_def is_digit_def)

text \<open>
  C3 (amended). Whenever \<open>get_etag_from_file\<close> returns a token, the token matches the
  pattern \<open><digits>.<exactly 9 digits>\<close> if the timestamp used is not negative, and is a
  minus sign followed by a string of that pattern if it is negative (a negative
  nanosecond count, or a float whose sign bit is set).
\<close>

theorem get_etag_from_file_token_shape:
  assumes "os_stat os fpath (world s) = Inr st"
      and "fst (get_etag_from_file os fpath s) = Inr t"
  shows "if is_negative (chosen_mtime st)
         then t \<noteq> [] \<and> hd t = CHR ''-'' \<and> is_token_shape (tl t)
         else is_token_shape t"
proof -
  have "format_9f (chosen_mtime st) = Inr t"
    using assms by (simp add: get_etag_from_file_unfold)
  then show ?thesis by (rule format_9f_signed_shape)
qed

theorem get_etag_from_file_token_shape_witness:
  "os_stat (table_os ''linux'') ''tmp'' (world (start world_ns))
     = Inr \<lparr>st_mtime_ns = Some 2000000000, st_mtime = Float False 2 0\<rparr>
   \<and> fst (get_etag_from_file (table_os ''linux'') ''tmp'' (start world_ns))
     = Inr ''2000000000.000000000''
   \<and> is_token_shape ''2000000000.000000000''
   \<and> os_stat (table_os ''linux'') ''tmp'' (world (start world_before_epoch))
     = Inr \<lparr>st_mtime_ns = Some (- 2), st_mtime = Float True 1 (- 29)\<rparr>
   \<and> fst (get_etag_from_file (table_os ''linux'') ''tmp'' (start world_before_epoch))
     = Inr ''-2.000000000''
   \<and> is_token_shape ''2.000000000''"
proof -
  have h1: "os_stat (table_os ''linux'') ''tmp'' (world (start world_ns))
      = Inr \<lparr>st_mtime_ns = Some 2000000000, st_mtime = Float False 2 0\<rparr>"
    by (simp add: start_def stat_tmp_ns)
  have h2: "fst (get_etag_from_file (table_os ''linux'') ''tmp'' (start world_ns))
      = Inr ''2000000000.000000000''"
    by (rule run_ns)
  have a: "is_token_shape ''2000000000.000000000''"
    using get_etag_from_file_token_shape [OF h1 h2] by (simp add: chosen_mtime_def)
  have n1: "os_stat (table_os ''linux'') ''tmp'' (world (start world_before_epoch))
      = Inr \<lparr>st_mtime_ns = Some (- 2), st_mtime = Float True 1 (- 29)\<rparr>"
    by (simp add: table_os_def table_stat_def start_def world_before_epoch_def)
  have n2: "fst (get_etag_from_file (table_os ''linux'') ''tmp'' (start world_before_epoch))
      = Inr ''-2.000000000''"
    by (rule run_before_epoch)
  have b: "is_token_shape ''2.000000000''"
    using get_etag_from_file_token_shape [OF n1 n2] by (simp add: chosen_mtime_def)
  from h1 h2 a n1 n2 b show ?thesis by (simp only: simp_thms)
qed

text \<open>
  C1 (as stated). For an instant expressible both as an integer nanosecond count and as
  the equivalent float of seconds, the nanosecond branch and the fallback branch produce
  the same token. This fails at the instant two seconds after the epoch: the nanosecond
  branch formats the count \<open>2000000000\<close> itself, the fallback branch formats \<open>2.0\<close>.
\<close>

theorem branches_disagree_counterexample:
  "same_instant 2000000000 (Float False 2 0)
   \<and> fst (get_etag_from_file (table_os ''linux'') ''tmp'' (start world_ns))
       = Inr ''2000000000.000000000''
   \<and> fst (get_etag_from_file (table_os ''linux'') ''tmp'' (start world_seconds))
       = Inr ''2.000000000''
   \<and> fst (get_etag_from_file (table_os ''linux'') ''tmp'' (start world_ns))
       \<noteq> fst (get_etag_from_file (table_os ''linux'') ''tmp'' (start world_seconds))"
  by (simp add: run_ns run_seconds same_instant_def)

text \<open>
  C1 (amended). The nanosecond branch formats the nanosecond count itself, converted to
  the nearest double and not scaled to seconds, so its token ends in nine zero digits;
  the fallback branch formats the float of seconds. For an instant expressible both
  ways, the two branches return the same result exactly when the instant is the epoch
  (a count of 0 nanoseconds).
\<close>

theorem branches_agree_only_at_epoch:
  assumes "os_stat os1 p1 (world s1) = Inr st1" and "st_mtime_ns st1 = Some ns"
      and "os_stat os2 p2 (world s2) = Inr st2" and "st_mtime_ns st2 = None"
      and "same_instant ns (st_mtime st2)"
  shows "(fst (get_etag_from_file os1 p1 s1) = fst (get_etag_from_file os2 p2 s2)) = (ns = 0)
     \<and> (\<forall>t. fst (get_etag_from_file os1 p1 s1) = Inr t \<longrightarrow>
            drop (length t - 10) t = ''.000000000'')"
proof
  have a: "fst (get_etag_from_file os1 p1 s1) = format_9f (PyInt ns)"
    using assms(1,2) by (simp add: get_etag_from_file_unfold chosen_mtime_def)
  have b: "fst (get_etag_from_file os2 p2 s2) = format_9f (PyFloat (st_mtime st2))"
    using assms(3,4) by (simp add: get_etag_from_file_unfold chosen_mtime_def)
  show "(fst (get_etag_from_file os1 p1 s1) = fst (get_etag_from_file os2 p2 s2)) = (ns = 0)"
    unfolding a b by (rule format_9f_same_instant [OF assms(5)])
  show "\<forall>t. fst (get_etag_from_file os1 p1 s1) = Inr t \<longrightarrow>
      drop (length t - 10) t = ''.000000000''"
  proof (intro allI impI)
    fix t
    assume "fst (get_etag_from_file os1 p1 s1) = Inr t"
    with a obtain x where x: "long_as_double ns = Inr x" and t: "t = float_format_9f x"
      by (auto split: sum.splits)
    from long_as_double_magnitude [OF x] obtain k
      where "float_format_9f x = ((if ns < 0 then ''-'' else []) @ digits k) @ ''.000000000''"
      by (auto simp: fixed_digits_9_0)
    then show "drop (length t - 10) t = ''.000000000''"
      unfolding t by (simp only: length_append drop_append) simp
  qed
qed

theorem branches_agree_only_at_epoch_witness:
  "os_stat (table_os ''linux'') ''tmp'' (world (start world_epoch_ns))
     = Inr \<lparr>st_mtime_ns = Some 0, st_mtime = Float False 0 0\<rparr>
   \<and> os_stat (table_os ''linux'') ''tmp'' (world (start world_epoch_seconds))
     = Inr \<lparr>st_mtime_ns = None, st_mtime = Float False 0 0\<rparr>
   \<and> same_instant 0 (Float False 0 0)
   \<and> fst (get_etag_from_file (table_os ''linux'') ''tmp'' (start world_epoch_ns))
     = fst (get_etag_from_file (table_os ''linux'') ''tmp'' (start world_epoch_seconds))
   \<and> fst (get_etag_from_file (table_os ''linux'') ''tmp'' (start world_epoch_ns))
     = Inr ''0.000000000''"
proof -
  let ?st1 = "\<lparr>st_mtime_ns = Some 0, st_mtime = Float False 0 0\<rparr>"
  let ?st2 = "\<lparr>st_mtime_ns = None, st_mtime = Float False 0 0\<rparr>"
  have h1: "os_stat (table_os ''linux'') ''tmp'' (world (start world_epoch_ns)) = Inr ?st1"
    by (simp add: table_os_def table_stat_def start_def world_epoch_ns_def)
  have h2: "st_mtime_ns ?st1 = Some 0" by simp
  have h3: "os_stat (table_os ''linux'') ''tmp'' (world (start world_epoch_seconds)) = Inr ?st2"
    by (simp add: table_os_def table_stat_def start_def world_epoch_seconds_def)
  have h4: "st_mtime_ns ?st2 = None" by simp
  have h5: "same_instant 0 (st_mtime ?st2)"
    by (simp add: same_instant_def)
  have h5': "same_instant 0 (Float False 0 0)"
    by (simp add: same_instant_def)
  have "fst (get_etag_from_file (table_os ''linux'') ''tmp'' (start world_epoch_ns))
      = fst (get_etag_from_file (table_os ''linux'') ''tmp'' (start world_epoch_seconds))"
    using branches_agree_only_at_epoch [OF h1 h2 h3 h4 h5] by blast
  with h1 h3 h5' run_epoch_ns show ?thesis by (simp only: simp_thms)
qed

section \<open>Claims about cached_property\<close>

text \<open>
  C10 (as stated). For every object and every wrapped function, the function is invoked
  at most once per object. This fails for a function that raises: nothing is stored, and
  the next access invokes it again. A function that always raises is invoked three times
  by three accesses of one object; a function that raises once and then returns 42 is
  invoked twice by two accesses of one object, with 42 stored, never \<open>_missing\<close>, and
  nothing deleted from the object.
\<close>

theorem cached_property_invoked_again_counterexample:
  "fst (get_many (cached_property_init raising_func ''answer'' None) 3 fresh_instance)
     = [Inl ValueError, Inl ValueError, Inl ValueError]
   \<and> calls (snd (get_many (cached_property_init raising_func ''answer'' None) 3 fresh_instance))
     = 3
   \<and> fst (get_many (cached_property_init flaky_func ''answer'' None) 2 fresh_instance)
     = [Inl ValueError, Inr (Value (Obj 42))]
   \<and> calls (snd (get_many (cached_property_init flaky_func ''answer'' None) 2 fresh_instance))
     = 2
   \<and> inst_dict (snd (get_many (cached_property_init flaky_func ''answer'' None) 2
        fresh_instance)) ''answer'' = Some (Obj 42)"
  by (simp add: numeral_3_eq_3 numeral_2_eq_2 cached_property_get_def cached_property_init_def
      raising_func_def flaky_func_def fresh_instance_def call_func_def)

text \<open>
  C10 (amended). Once an access of a cached property on an object has returned a value
  that is not the \<open>_missing\<close> sentinel, the value is stored in the object's \<open>__dict__\<close>
  under the property's name, the wrapped function has been invoked at most once by that
  access (exactly once when the attribute was absent before), and every later access,
  with nothing else changing the object in between, returns the stored value and leaves
  the object, and so the number of invocations, unchanged.
\<close>

theorem cached_property_computes_once:
  assumes "cached_property_get self (Some ob) = (Inr (Value v), Some ob1)"
      and "v \<noteq> Missing"
  shows "get_many self n ob1 = (replicate n (Inr (Value v)), ob1)
     \<and> inst_dict ob1 (cp_name self) = Some v
     \<and> calls ob1 \<le> calls ob + 1
     \<and> (inst_dict ob (cp_name self) = None \<longrightarrow> calls ob1 = calls ob + 1)"
proof -
  have st: "inst_dict ob1 (cp_name self) = Some v \<and> calls ob1 \<le> calls ob + 1"
    using assms(1) by (rule cached_property_get_stores)
  then have "get_many self n ob1 = (replicate n (Inr (Value v)), ob1)"
    using assms(2) by (simp add: get_many_cached)
  moreover have "inst_dict ob (cp_name self) = None \<longrightarrow> calls ob1 = calls ob + 1"
    using assms(1)
    by (auto simp: cached_property_get_def call_func_def split: sum.splits prod.splits)
  ultimately show ?thesis
    using st by simp
qed

theorem cached_property_computes_once_witness:
  "cached_property_get (cached_property_init answer_func ''answer'' None) (Some fresh_instance)
     = (Inr (Value (Obj 42)), Some \<lparr>inst_dict = [''answer'' \<mapsto> Obj 42], calls = 1\<rparr>)
   \<and> Obj (42::nat) \<noteq> Missing
   \<and> get_many (cached_property_init answer_func ''answer'' None) 3
        \<lparr>inst_dict = [''answer'' \<mapsto> Obj 42], calls = 1\<rparr>
     = ([Inr (Value (Obj 42)), Inr (Value (Obj 42)), Inr (Value (Obj 42))],
        \<lparr>inst_dict = [''answer'' \<mapsto> Obj 42], calls = 1\<rparr>)"
proof -
  let ?cp = "cached_property_init answer_func ''answer'' None"
  let ?ob1 = "\<lparr>inst_dict = [''answer'' \<mapsto> Obj (42::nat)], calls = 1\<rparr>"
  have h1: "cached_property_get ?cp (Some fresh_instance) = (Inr (Value (Obj 42)), Some ?ob1)"
    by (simp add: cached_property_get_def cached_property_init_def answer_func_def
        fresh_instance_def call_func_def)
  have h2: "Obj (42::nat) \<noteq> Missing" by simp
  have r: "replicate 3 (Inr (Value (Obj (42::nat))) :: pyexc + nat get_result)
      = [Inr (Value (Obj 42)), Inr (Value (Obj 42)), Inr (Value (Obj 42))]"
    by (simp add: numeral_3_eq_3)
  have "get_many ?cp 3 ?ob1 = (replicate 3 (Inr (Value (Obj 42))), ?ob1)"
    using cached_property_computes_once [OF h1 h2, of 3] by blast
  with h1 h2 r show ?thesis by (simp only: simp_thms)
qed

end
